theory Spec2Isabelle
  imports Complex_Main "HOL-Library.Word"
begin

section \<open>Data model\<close>

text \<open>
  The realtime session hook of \<^verbatim>\<open>src/hooks/useLiveSession.ts\<close> and the types of
  \<^verbatim>\<open>src/types.ts\<close>. A JavaScript string is a sequence of UTF-16 code units.
  \<open>js\<close> writes an ASCII literal of the source as such a sequence.
\<close>

type_synonym jsstring = "16 word list"

definition js :: "string \<Rightarrow> jsstring" where
  "js cs = map of_char cs"

text \<open>
  \<^verbatim>\<open>String.prototype.trim\<close> removes the ECMAScript white space and line terminator
  code units from both ends.
\<close>

definition isWhiteSpace :: "16 word \<Rightarrow> bool" where
  "isWhiteSpace c \<longleftrightarrow>
     c \<in> {0x0009, 0x000A, 0x000B, 0x000C, 0x000D, 0x0020, 0x00A0, 0x1680,
          0x2028, 0x2029, 0x202F, 0x205F, 0x3000, 0xFEFF}
     \<or> (0x2000 \<le> c \<and> c \<le> 0x200A)"

definition trim :: "jsstring \<Rightarrow> jsstring" where
  "trim t = rev (dropWhile isWhiteSpace (rev (dropWhile isWhiteSpace t)))"

datatype role = user | model

record ChatMessage =
  role :: role
  text' :: jsstring
  timestamp :: nat

datatype AppMode = CONVERSATION | TEST_SETUP | TEST_ACTIVE

datatype ConnectionState = Disconnected | Connecting | Connected | Error

text \<open>
  The part of a \<^verbatim>\<open>LiveServerMessage\<close> the handler reads. \<open>None\<close> is an absent
  (undefined) member; the two flags are the truthiness of \<^verbatim>\<open>turnComplete\<close> and
  \<^verbatim>\<open>interrupted\<close>. A transcription fragment carries its text.
\<close>

record Part =
  inlineData :: "jsstring option" \<comment> \<open>\<^verbatim>\<open>inlineData?.data\<close>\<close>

record Content =
  parts :: "Part list option"

record LiveServerContent =
  outputTranscription :: "jsstring option"
  inputTranscription :: "jsstring option"
  turnComplete :: bool
  modelTurn :: "Content option"
  interrupted :: bool

record LiveServerMessage =
  serverContent :: "LiveServerContent option"

text \<open>
  A decoded buffer. The Web Audio API defines the duration of an \<^verbatim>\<open>AudioBuffer\<close> as
  its length in sample frames divided by its sample rate. Times are real numbers;
  the rounding of IEEE doubles is not modelled.
\<close>

record AudioBuffer =
  frames :: nat
  sampleRate :: nat

definition duration :: "AudioBuffer \<Rightarrow> real" where
  "duration b = real (frames b) / real (sampleRate b)"

record AudioBufferSourceNode =
  node :: nat \<comment> \<open>the identity of the object\<close>
  buffer :: AudioBuffer

text \<open>
  The script processor node carries the \<^verbatim>\<open>onaudioprocess\<close> handler assigned to it.
  The handler is a closure of one call of \<^verbatim>\<open>connect\<close>: it reads the \<^verbatim>\<open>isMuted\<close> and
  the \<^verbatim>\<open>sessionPromise\<close> bindings of that call.
\<close>

record Closure =
  isMuted\<^sub>c :: bool
  sessionPromise\<^sub>c :: nat

record ScriptProcessorNode =
  processor :: nat
  handler :: Closure

datatype instruction = DEFAULT_SYSTEM_INSTRUCTION | Override jsstring

text \<open>
  What the hook does to its collaborators (the audio devices, the remote service, and
  the application's callback), in the order it does it: what acquires, releases, sends
  or plays. The wiring of the audio graph and console output are left out.
\<close>

datatype effect =
    NewAudioContext nat nat \<comment> \<open>identity, sample rate\<close>
  | CloseAudioContext nat
  | ResumeAudioContext nat
  | GetUserMedia
  | UserMediaStream nat \<comment> \<open>the microphone stream the request resolved with\<close>
  | TrackStop nat \<comment> \<open>every track of this stream stopped\<close>
  | NodeDisconnect nat
  | LiveConnect nat instruction \<comment> \<open>\<^verbatim>\<open>ai.live.connect\<close>: the session, its instruction\<close>
  | SessionClose nat
  | SendRealtimeInput nat "real list" \<comment> \<open>the session, the block encoded by \<^verbatim>\<open>createBlob\<close>\<close>
  | DecodeAudioData jsstring
  | SourceStart nat real \<comment> \<open>\<^verbatim>\<open>source.start(when)\<close>\<close>
  | SourceStop nat
  | OnTranscriptionUpdate ChatMessage

text \<open>
  The state of one mounted hook: its React state, its refs, the effects performed so
  far (oldest first) and a counter that gives every created object a new identity.
\<close>

record hook =
  connectionState :: ConnectionState
  error :: "jsstring option"
  isMuted :: bool
  volumeLevel :: real
  appModeRef :: AppMode
  inputAudioContextRef :: "nat option"
  outputAudioContextRef :: "nat option"
  inputNodeRef :: "nat option"
  outputNodeRef :: "nat option"
  scriptProcessorRef :: "ScriptProcessorNode option"
  streamRef :: "nat option"
  sourceRef :: "nat option"
  nextStartTimeRef :: real
  activeSourcesRef :: "AudioBufferSourceNode list" \<comment> \<open>a Set, in insertion order\<close>
  sessionPromiseRef :: "nat option"
  currentInputTranscriptionRef :: jsstring
  currentOutputTranscriptionRef :: jsstring
  effects :: "effect list"
  fresh :: nat

definition initial :: "AppMode \<Rightarrow> hook" where
  "initial appMode =
     \<lparr>connectionState = Disconnected, error = None, isMuted = False, volumeLevel = 0,
      appModeRef = appMode,
      inputAudioContextRef = None, outputAudioContextRef = None,
      inputNodeRef = None, outputNodeRef = None, scriptProcessorRef = None,
      streamRef = None, sourceRef = None,
      nextStartTimeRef = 0, activeSourcesRef = [],
      sessionPromiseRef = None,
      currentInputTranscriptionRef = [], currentOutputTranscriptionRef = [],
      effects = [], fresh = 0\<rparr>"

definition perform :: "effect list \<Rightarrow> hook \<Rightarrow> hook" where
  "perform es s = s\<lparr>effects := effects s @ es\<rparr>"

section \<open>The message handler\<close>

text \<open>
  What the handler reads from its environment while it runs: the clock of the output
  audio context, and the two \<^verbatim>\<open>new Date()\<close> of the turn-complete branch.
\<close>

record MessageEnv =
  currentTime :: real
  dateUser :: nat
  dateModel :: nat

text \<open>Handle Transcriptions: each fragment is appended to the buffer of its role.\<close>

definition handleTranscriptions :: "LiveServerMessage \<Rightarrow> hook \<Rightarrow> hook" where
  "handleTranscriptions m s =
     (case serverContent m of
        None \<Rightarrow> s
      | Some c \<Rightarrow>
          (let s1 = (case outputTranscription c of
                       None \<Rightarrow> s
                     | Some t \<Rightarrow> s\<lparr>currentOutputTranscriptionRef :=
                                     currentOutputTranscriptionRef s @ t\<rparr>)
           in case inputTranscription c of
                None \<Rightarrow> s1
              | Some t \<Rightarrow> s1\<lparr>currentInputTranscriptionRef :=
                              currentInputTranscriptionRef s1 @ t\<rparr>))"

text \<open>Send completed turns to UI, then clear both buffers.\<close>

definition sendCompletedTurns :: "MessageEnv \<Rightarrow> LiveServerMessage \<Rightarrow> hook \<Rightarrow> hook" where
  "sendCompletedTurns env m s =
     (case serverContent m of
        None \<Rightarrow> s
      | Some c \<Rightarrow>
          if turnComplete c then
            (let s1 = (if trim (currentInputTranscriptionRef s) \<noteq> []
                       then perform [OnTranscriptionUpdate
                              \<lparr>role = user, text' = currentInputTranscriptionRef s,
                               timestamp = dateUser env\<rparr>] s
                       else s);
                 s2 = (if trim (currentOutputTranscriptionRef s1) \<noteq> []
                       then perform [OnTranscriptionUpdate
                              \<lparr>role = model, text' = currentOutputTranscriptionRef s1,
                               timestamp = dateModel env\<rparr>] s1
                       else s1)
             in s2\<lparr>currentInputTranscriptionRef := [],
                   currentOutputTranscriptionRef := []\<rparr>)
          else s)"

text \<open>\<^verbatim>\<open>message.serverContent?.modelTurn?.parts?.[0]?.inlineData?.data\<close>\<close>

definition base64Audio :: "LiveServerMessage \<Rightarrow> jsstring option" where
  "base64Audio m =
     (case serverContent m of
        None \<Rightarrow> None
      | Some c \<Rightarrow>
          (case modelTurn c of
             None \<Rightarrow> None
           | Some t \<Rightarrow>
               (case parts t of
                  None \<Rightarrow> None
                | Some ps \<Rightarrow> (case ps of [] \<Rightarrow> None | p # _ \<Rightarrow> inlineData p))))"

text \<open>
  Handle Audio Output. \<open>decode\<close> stands for \<^verbatim>\<open>decodeAudioData(base64ToUint8Array(d),
  ctx, 24000, 1)\<close> of \<^verbatim>\<open>utils/audioUtils\<close>, which is not part of the sources at hand:
  \<open>None\<close> when it throws. The empty string is falsy, so an empty payload is skipped.
  The handler runs to its end before the next event is handled.
\<close>

definition handleAudioOutput ::
  "(jsstring \<Rightarrow> AudioBuffer option) \<Rightarrow> MessageEnv \<Rightarrow> LiveServerMessage \<Rightarrow> hook \<Rightarrow> hook" where
  "handleAudioOutput decode env m s =
     (case base64Audio m of
        None \<Rightarrow> s
      | Some d \<Rightarrow>
          if d \<noteq> [] \<and> outputAudioContextRef s \<noteq> None \<and> outputNodeRef s \<noteq> None then
            (let s1 = s\<lparr>nextStartTimeRef := max (nextStartTimeRef s) (currentTime env)\<rparr>
             in case decode d of
                  None \<Rightarrow> perform [DecodeAudioData d] s1
                | Some audioBuffer \<Rightarrow>
                    (let source = \<lparr>node = fresh s1, buffer = audioBuffer\<rparr>;
                         s2 = perform [DecodeAudioData d,
                                       SourceStart (node source) (nextStartTimeRef s1)]
                                (s1\<lparr>fresh := fresh s1 + 1\<rparr>)
                     in s2\<lparr>nextStartTimeRef := nextStartTimeRef s2 + duration audioBuffer,
                           activeSourcesRef := activeSourcesRef s2 @ [source]\<rparr>))
          else s)"

text \<open>Handle Interruption.\<close>

definition handleInterruption :: "LiveServerMessage \<Rightarrow> hook \<Rightarrow> hook" where
  "handleInterruption m s =
     (case serverContent m of
        None \<Rightarrow> s
      | Some c \<Rightarrow>
          if interrupted c then
            (perform (map (\<lambda>src. SourceStop (node src)) (activeSourcesRef s)) s)
              \<lparr>activeSourcesRef := [], nextStartTimeRef := 0,
               currentOutputTranscriptionRef := []\<rparr>
          else s)"

text \<open>
  The handler as a whole. In test mode it returns after the transcript part, before
  the audio output and the interruption are looked at.
\<close>

definition onmessage ::
  "(jsstring \<Rightarrow> AudioBuffer option) \<Rightarrow> MessageEnv \<Rightarrow> LiveServerMessage \<Rightarrow> hook \<Rightarrow> hook" where
  "onmessage decode env m s =
     (let s1 = sendCompletedTurns env m (handleTranscriptions m s)
      in if appModeRef s1 = TEST_ACTIVE then s1
         else handleInterruption m (handleAudioOutput decode env m s1))"

section \<open>Session lifecycle\<close>

text \<open>
  \<^verbatim>\<open>cleanup\<close>. The session is closed through \<^verbatim>\<open>sessionPromiseRef.current?.then(...)\<close>,
  that is, as soon as the promise of the session has resolved.
\<close>

definition cleanup :: "hook \<Rightarrow> hook" where
  "cleanup s =
     (let s1 = (perform (map (\<lambda>src. SourceStop (node src)) (activeSourcesRef s)) s)
                 \<lparr>activeSourcesRef := []\<rparr>;
          s2 = (case streamRef s1 of
                  None \<Rightarrow> s1
                | Some stream \<Rightarrow> (perform [TrackStop stream] s1)\<lparr>streamRef := None\<rparr>);
          s3 = (case sourceRef s2 of
                  None \<Rightarrow> s2
                | Some n \<Rightarrow> (perform [NodeDisconnect n] s2)\<lparr>sourceRef := None\<rparr>);
          s4 = (case scriptProcessorRef s3 of
                  None \<Rightarrow> s3
                | Some p \<Rightarrow>
                    (perform [NodeDisconnect (processor p)] s3)\<lparr>scriptProcessorRef := None\<rparr>);
          s5 = (case inputAudioContextRef s4 of
                  None \<Rightarrow> s4
                | Some ctx \<Rightarrow>
                    (perform [CloseAudioContext ctx] s4)\<lparr>inputAudioContextRef := None\<rparr>);
          s6 = (case outputAudioContextRef s5 of
                  None \<Rightarrow> s5
                | Some ctx \<Rightarrow>
                    (perform [CloseAudioContext ctx] s5)\<lparr>outputAudioContextRef := None\<rparr>);
          s7 = (case sessionPromiseRef s6 of
                  None \<Rightarrow> s6
                | Some session \<Rightarrow> perform [SessionClose session] s6)
      in s7\<lparr>sessionPromiseRef := None, connectionState := Disconnected, volumeLevel := 0\<rparr>)"

text \<open>
  \<^verbatim>\<open>connect\<close> is asynchronous: it runs up to \<^verbatim>\<open>await getUserMedia\<close>, and goes on when the
  request is settled. In between, other events are handled. The suspended call keeps
  the bindings of its closure: \<^verbatim>\<open>isMuted\<close> of the render that built this \<^verbatim>\<open>connect\<close>
  (\<^verbatim>\<open>isMuted\<close> is in the dependency list of the callback, so this is the flag at the
  time of the call) and the instruction override.
\<close>

record Pending =
  isMuted\<^sub>p :: bool
  systemInstructionOverride :: "jsstring option"

definition connect :: "jsstring option \<Rightarrow> jsstring option \<Rightarrow> hook \<Rightarrow> Pending option \<times> hook" where
  "connect API_KEY override s =
     (if API_KEY = None \<or> API_KEY = Some [] then
        (None, s\<lparr>error := Some (js ''API Key is missing.'')\<rparr>)
      else
        (let s1 = (if sessionPromiseRef s \<noteq> None then cleanup s else s);
             s2 = s1\<lparr>connectionState := Connecting, error := None\<rparr>;
             s3 = (perform [NewAudioContext (fresh s2) 16000,
                            NewAudioContext (fresh s2 + 1) 24000] s2)
                    \<lparr>inputAudioContextRef := Some (fresh s2),
                     outputAudioContextRef := Some (fresh s2 + 1),
                     nextStartTimeRef := 0,
                     inputNodeRef := Some (fresh s2 + 2),
                     outputNodeRef := Some (fresh s2 + 3),
                     fresh := fresh s2 + 4\<rparr>
         in (Some \<lparr>isMuted\<^sub>p = isMuted s, systemInstructionOverride = override\<rparr>,
             perform [GetUserMedia] s3)))"

text \<open>
  The rest of \<^verbatim>\<open>connect\<close>, once \<^verbatim>\<open>getUserMedia\<close> is settled: with a stream (\<open>Inr\<close>), or
  with a rejection (\<open>Inl\<close>, carrying the message when the reason is an \<^verbatim>\<open>Error\<close>), which
  the \<^verbatim>\<open>catch\<close> block handles. With a stream, the session is requested, and the result is
  the closure its callbacks share.
\<close>

definition connect_resume ::
  "Pending \<Rightarrow> jsstring option + nat \<Rightarrow> hook \<Rightarrow> Closure option \<times> hook" where
  "connect_resume p outcome s =
     (case outcome of
        Inl err \<Rightarrow>
          (None, s\<lparr>connectionState := Error,
                   error := Some (case err of Some message \<Rightarrow> message
                                  | None \<Rightarrow> js ''Failed to connect'')\<rparr>)
      | Inr stream \<Rightarrow>
          (let s1 = (perform [UserMediaStream stream] s)\<lparr>streamRef := Some stream\<rparr>;
               sessionPromise = fresh s1;
               systemInstruction =
                 (case systemInstructionOverride p of
                    None \<Rightarrow> DEFAULT_SYSTEM_INSTRUCTION
                  | Some t \<Rightarrow> if t \<noteq> [] then Override t else DEFAULT_SYSTEM_INSTRUCTION)
           in (Some \<lparr>isMuted\<^sub>c = isMuted\<^sub>p p, sessionPromise\<^sub>c = sessionPromise\<rparr>,
               (perform [LiveConnect sessionPromise systemInstruction] s1)
                 \<lparr>sessionPromiseRef := Some sessionPromise, fresh := fresh s1 + 1\<rparr>)))"

text \<open>
  The callbacks of a session. \<open>onopen\<close> is told whether the output context is
  suspended; it installs the capture handler with the closure of its \<^verbatim>\<open>connect\<close> call.
\<close>

definition onopen :: "bool \<Rightarrow> Closure \<Rightarrow> hook \<Rightarrow> hook" where
  "onopen suspended cl s =
     (let s1 = s\<lparr>connectionState := Connected\<rparr>;
          s2 = (case outputAudioContextRef s1 of
                  None \<Rightarrow> s1
                | Some ctx \<Rightarrow> if suspended then perform [ResumeAudioContext ctx] s1 else s1)
      in if inputAudioContextRef s2 = None \<or> streamRef s2 = None then s2
         else s2\<lparr>sourceRef := Some (fresh s2),
                 scriptProcessorRef := Some \<lparr>processor = fresh s2 + 1, handler = cl\<rparr>,
                 fresh := fresh s2 + 2\<rparr>)"

text \<open>
  \<^verbatim>\<open>processor.onaudioprocess\<close>, for one capture block (4096 frames, never empty). The
  mute test reads the \<^verbatim>\<open>isMuted\<close> of the closure. The block, encoded by \<^verbatim>\<open>createBlob\<close>, goes
  to the \<^verbatim>\<open>sessionPromise\<close> of the closure, which has resolved when the session is open.
  Nothing is kept of a block that is not sent.
\<close>

definition onaudioprocess :: "Closure \<Rightarrow> real list \<Rightarrow> hook \<Rightarrow> hook" where
  "onaudioprocess cl inputData s =
     (if isMuted\<^sub>c cl then s
      else perform [SendRealtimeInput (sessionPromise\<^sub>c cl) inputData]
             (s\<lparr>volumeLevel :=
                  sqrt (sum_list (map (\<lambda>x. x * x) inputData) / real (length inputData))\<rparr>))"

definition onclose :: "hook \<Rightarrow> hook" where
  "onclose s = s\<lparr>connectionState := Disconnected\<rparr>"

definition onerror :: "hook \<Rightarrow> hook" where
  "onerror s =
     s\<lparr>connectionState := Error,
       error := Some (js ''Connection error occurred. Please try again.'')\<rparr>"

definition disconnect :: "hook \<Rightarrow> hook" where
  "disconnect s = cleanup s"

definition toggleMute :: "hook \<Rightarrow> hook" where
  "toggleMute s = s\<lparr>isMuted := \<not> isMuted s\<rparr>"

text \<open>The listener for \<^verbatim>\<open>ended\<close> of a scheduled source deletes it from the set.\<close>

definition ended :: "nat \<Rightarrow> hook \<Rightarrow> hook" where
  "ended n s = s\<lparr>activeSourcesRef := filter (\<lambda>src. node src \<noteq> n) (activeSourcesRef s)\<rparr>"

text \<open>The effect that copies the \<^verbatim>\<open>appMode\<close> prop into its ref.\<close>

definition syncAppMode :: "AppMode \<Rightarrow> hook \<Rightarrow> hook" where
  "syncAppMode appMode s = s\<lparr>appModeRef := appMode\<rparr>"

text \<open>Every entry point of the hook, as one event of its life.\<close>

datatype event =
    Connect "jsstring option" "jsstring option"
  | ConnectResume Pending "jsstring option + nat"
  | Disconnect
  | Unmount
  | ToggleMute
  | AppModeChanged AppMode
  | OnOpen bool Closure
  | OnAudioProcess Closure "real list"
  | OnMessage MessageEnv LiveServerMessage
  | OnClose
  | OnError
  | Ended nat

fun step :: "(jsstring \<Rightarrow> AudioBuffer option) \<Rightarrow> event \<Rightarrow> hook \<Rightarrow> hook" where
  "step decode (Connect API_KEY override) s = snd (connect API_KEY override s)"
| "step decode (ConnectResume p outcome) s = snd (connect_resume p outcome s)"
| "step decode Disconnect s = disconnect s"
| "step decode Unmount s = cleanup s"
| "step decode ToggleMute s = toggleMute s"
| "step decode (AppModeChanged appMode) s = syncAppMode appMode s"
| "step decode (OnOpen suspended cl) s = onopen suspended cl s"
| "step decode (OnAudioProcess cl inputData) s = onaudioprocess cl inputData s"
| "step decode (OnMessage env m) s = onmessage decode env m s"
| "step decode OnClose s = onclose s"
| "step decode OnError s = onerror s"
| "step decode (Ended n) s = ended n s"

section \<open>Reading the effects\<close>

fun decodeOf :: "effect \<Rightarrow> jsstring list" where
  "decodeOf (DecodeAudioData d) = [d]"
| "decodeOf _ = []"

fun startOf :: "effect \<Rightarrow> (nat \<times> real) list" where
  "startOf (SourceStart n t) = [(n, t)]"
| "startOf _ = []"

fun stopOf :: "effect \<Rightarrow> nat list" where
  "stopOf (SourceStop n) = [n]"
| "stopOf _ = []"

fun sendOf :: "effect \<Rightarrow> (nat \<times> real list) list" where
  "sendOf (SendRealtimeInput session block) = [(session, block)]"
| "sendOf _ = []"

fun updateOf :: "effect \<Rightarrow> ChatMessage list" where
  "updateOf (OnTranscriptionUpdate c) = [c]"
| "updateOf _ = []"

fun streamOf :: "effect \<Rightarrow> nat list" where
  "streamOf (UserMediaStream stream) = [stream]"
| "streamOf _ = []"

fun sessionOf :: "effect \<Rightarrow> nat list" where
  "sessionOf (LiveConnect session i) = [session]"
| "sessionOf _ = []"

fun contextOf :: "effect \<Rightarrow> nat list" where
  "contextOf (NewAudioContext ctx rate) = [ctx]"
| "contextOf _ = []"

definition decoded :: "hook \<Rightarrow> jsstring list" where
  "decoded s = concat (map decodeOf (effects s))"

definition started :: "hook \<Rightarrow> (nat \<times> real) list" where
  "started s = concat (map startOf (effects s))"

definition stopped :: "hook \<Rightarrow> nat list" where
  "stopped s = concat (map stopOf (effects s))"

definition sent :: "hook \<Rightarrow> (nat \<times> real list) list" where
  "sent s = concat (map sendOf (effects s))"

definition emitted :: "hook \<Rightarrow> ChatMessage list" where
  "emitted s = concat (map updateOf (effects s))"

text \<open>The microphone streams, remote sessions and audio contexts acquired and not released.\<close>

definition openStreams :: "hook \<Rightarrow> nat list" where
  "openStreams s =
     filter (\<lambda>stream. TrackStop stream \<notin> set (effects s)) (concat (map streamOf (effects s)))"

definition openSessions :: "hook \<Rightarrow> nat list" where
  "openSessions s =
     filter (\<lambda>session. SessionClose session \<notin> set (effects s))
       (concat (map sessionOf (effects s)))"

definition openContexts :: "hook \<Rightarrow> nat list" where
  "openContexts s =
     filter (\<lambda>ctx. CloseAudioContext ctx \<notin> set (effects s))
       (concat (map contextOf (effects s)))"

section \<open>Runs and example inputs\<close>

text \<open>A run of the message handler over the messages of a session, in arrival order.\<close>

fun onmessages ::
  "(jsstring \<Rightarrow> AudioBuffer option) \<Rightarrow> (MessageEnv \<times> LiveServerMessage) list \<Rightarrow> hook \<Rightarrow> hook" where
  "onmessages decode [] s = s"
| "onmessages decode ((env, m) # ems) s = onmessages decode ems (onmessage decode env m s)"

definition inputFragment :: "LiveServerMessage \<Rightarrow> jsstring" where
  "inputFragment m =
     (case serverContent m of
        None \<Rightarrow> []
      | Some c \<Rightarrow> (case inputTranscription c of None \<Rightarrow> [] | Some t \<Rightarrow> t))"

definition outputFragment :: "LiveServerMessage \<Rightarrow> jsstring" where
  "outputFragment m =
     (case serverContent m of
        None \<Rightarrow> []
      | Some c \<Rightarrow> (case outputTranscription c of None \<Rightarrow> [] | Some t \<Rightarrow> t))"

definition isTurnComplete :: "LiveServerMessage \<Rightarrow> bool" where
  "isTurnComplete m = (case serverContent m of None \<Rightarrow> False | Some c \<Rightarrow> turnComplete c)"

definition isInterrupted :: "LiveServerMessage \<Rightarrow> bool" where
  "isInterrupted m = (case serverContent m of None \<Rightarrow> False | Some c \<Rightarrow> interrupted c)"

text \<open>The inbound events of the remote service, each as a message that carries nothing else.\<close>

definition noContent :: LiveServerContent where
  "noContent =
     \<lparr>outputTranscription = None, inputTranscription = None, turnComplete = False,
      modelTurn = None, interrupted = False\<rparr>"

definition inputTranscriptionFragment :: "jsstring \<Rightarrow> LiveServerMessage" where
  "inputTranscriptionFragment t =
     \<lparr>serverContent = Some (noContent\<lparr>inputTranscription := Some t\<rparr>)\<rparr>"

definition outputTranscriptionFragment :: "jsstring \<Rightarrow> LiveServerMessage" where
  "outputTranscriptionFragment t =
     \<lparr>serverContent = Some (noContent\<lparr>outputTranscription := Some t\<rparr>)\<rparr>"

definition turnCompleteEvent :: LiveServerMessage where
  "turnCompleteEvent = \<lparr>serverContent = Some (noContent\<lparr>turnComplete := True\<rparr>)\<rparr>"

definition audioChunk :: "jsstring \<Rightarrow> LiveServerMessage" where
  "audioChunk d =
     \<lparr>serverContent =
        Some (noContent\<lparr>modelTurn := Some \<lparr>parts = Some [\<lparr>inlineData = Some d\<rparr>]\<rparr>\<rparr>)\<rparr>"

definition interruptedEvent :: LiveServerMessage where
  "interruptedEvent = \<lparr>serverContent = Some (noContent\<lparr>interrupted := True\<rparr>)\<rparr>"

text \<open>
  A session brought up from the initial state in conversation mode, not muted: the
  call of \<^verbatim>\<open>connect\<close>, the microphone stream 100 granted, the session opened.
\<close>

definition connectingHook :: "Pending option \<times> hook" where
  "connectingHook = connect (Some (js ''key'')) None (initial CONVERSATION)"

definition settledHook :: "Closure option \<times> hook" where
  "settledHook = connect_resume (the (fst connectingHook)) (Inr 100) (snd connectingHook)"

definition connectedHook :: hook where
  "connectedHook = onopen False (the (fst settledHook)) (snd settledHook)"

text \<open>A decoder for which every payload is one second of audio, and a clock reading.\<close>

definition oneSecond :: "jsstring \<Rightarrow> AudioBuffer option" where
  "oneSecond d = Some \<lparr>frames = 24000, sampleRate = 24000\<rparr>"

definition atTime :: "real \<Rightarrow> MessageEnv" where
  "atTime t = \<lparr>currentTime = t, dateUser = 0, dateModel = 0\<rparr>"

text \<open>The connected session with one chunk scheduled at time 1.\<close>

definition playingHook :: hook where
  "playingHook = onmessage oneSecond (atTime 1) (audioChunk (js ''AAAA'')) connectedHook"

text \<open>
  Two calls of \<^verbatim>\<open>connect\<close> one right after the other, then the two microphone requests
  granted with the streams 100 and 101.
\<close>

definition connectTwice :: hook where
  "connectTwice =
     (let first = connect (Some (js ''key'')) None (initial CONVERSATION);
          second = connect (Some (js ''key'')) None (snd first);
          s1 = snd (connect_resume (the (fst first)) (Inr 100) (snd second))
      in snd (connect_resume (the (fst second)) (Inr 101) s1))"

text \<open>The second call made once the first has settled and its session is open.\<close>

definition reconnect :: hook where
  "reconnect =
     (let second = connect (Some (js ''key'')) None connectedHook
      in snd (connect_resume (the (fst second)) (Inr 101) (snd second)))"

text \<open>
  The events whose handler runs \<^verbatim>\<open>nextStartTimeRef.current = 0\<close>: a message with the
  interruption signal that gets past the test-mode return, and a call of \<^verbatim>\<open>connect\<close> that
  gets past the credential check.
\<close>

definition resetsCursor :: "event \<Rightarrow> hook \<Rightarrow> bool" where
  "resetsCursor ev s =
     (case ev of
        OnMessage env m \<Rightarrow> appModeRef s \<noteq> TEST_ACTIVE \<and> isInterrupted m
      | Connect API_KEY override \<Rightarrow> API_KEY \<noteq> None \<and> API_KEY \<noteq> Some []
      | _ \<Rightarrow> False)"

section \<open>Frame lemmas\<close>

lemma perform_fields [simp]:
  "effects (perform es s) = effects s @ es"
  "activeSourcesRef (perform es s) = activeSourcesRef s"
  "nextStartTimeRef (perform es s) = nextStartTimeRef s"
  "appModeRef (perform es s) = appModeRef s"
  "currentInputTranscriptionRef (perform es s) = currentInputTranscriptionRef s"
  "currentOutputTranscriptionRef (perform es s) = currentOutputTranscriptionRef s"
  "outputAudioContextRef (perform es s) = outputAudioContextRef s"
  "outputNodeRef (perform es s) = outputNodeRef s"
  "fresh (perform es s) = fresh s"
  by (simp_all add: perform_def)

lemma handleTranscriptions_frame [simp]:
  "effects (handleTranscriptions m s) = effects s"
  "activeSourcesRef (handleTranscriptions m s) = activeSourcesRef s"
  "nextStartTimeRef (handleTranscriptions m s) = nextStartTimeRef s"
  "appModeRef (handleTranscriptions m s) = appModeRef s"
  "outputAudioContextRef (handleTranscriptions m s) = outputAudioContextRef s"
  "outputNodeRef (handleTranscriptions m s) = outputNodeRef s"
  "fresh (handleTranscriptions m s) = fresh s"
  by (simp_all add: handleTranscriptions_def Let_def split: option.splits)

lemma sendCompletedTurns_frame [simp]:
  "activeSourcesRef (sendCompletedTurns env m s) = activeSourcesRef s"
  "nextStartTimeRef (sendCompletedTurns env m s) = nextStartTimeRef s"
  "appModeRef (sendCompletedTurns env m s) = appModeRef s"
  "outputAudioContextRef (sendCompletedTurns env m s) = outputAudioContextRef s"
  "outputNodeRef (sendCompletedTurns env m s) = outputNodeRef s"
  "fresh (sendCompletedTurns env m s) = fresh s"
  by (simp_all add: sendCompletedTurns_def Let_def split: option.splits)

lemma handleAudioOutput_frame [simp]:
  "currentInputTranscriptionRef (handleAudioOutput decode env m s) =
     currentInputTranscriptionRef s"
  "currentOutputTranscriptionRef (handleAudioOutput decode env m s) =
     currentOutputTranscriptionRef s"
  "appModeRef (handleAudioOutput decode env m s) = appModeRef s"
  by (simp_all add: handleAudioOutput_def Let_def split: option.splits)

lemma handleInterruption_frame [simp]:
  "currentInputTranscriptionRef (handleInterruption m s) = currentInputTranscriptionRef s"
  "appModeRef (handleInterruption m s) = appModeRef s"
  by (simp_all add: handleInterruption_def split: option.splits)

lemma handleInterruption_output:
  "currentOutputTranscriptionRef s = [] \<Longrightarrow>
   currentOutputTranscriptionRef (handleInterruption m s) = []"
  by (simp add: handleInterruption_def split: option.splits)

lemma projections_perform [simp]:
  "decoded (perform es s) = decoded s @ concat (map decodeOf es)"
  "started (perform es s) = started s @ concat (map startOf es)"
  "stopped (perform es s) = stopped s @ concat (map stopOf es)"
  "emitted (perform es s) = emitted s @ concat (map updateOf es)"
  by (simp_all add: decoded_def started_def stopped_def emitted_def)

lemma projections_handleTranscriptions [simp]:
  "decoded (handleTranscriptions m s) = decoded s"
  "started (handleTranscriptions m s) = started s"
  "stopped (handleTranscriptions m s) = stopped s"
  "emitted (handleTranscriptions m s) = emitted s"
  by (simp_all add: decoded_def started_def stopped_def emitted_def)

lemma sendCompletedTurns_turn:
  assumes "serverContent m = Some c" and "turnComplete c"
  shows "effects (sendCompletedTurns env m s) =
           effects s @
           (if trim (currentInputTranscriptionRef s) \<noteq> []
            then [OnTranscriptionUpdate
                    \<lparr>role = user, text' = currentInputTranscriptionRef s,
                     timestamp = dateUser env\<rparr>]
            else []) @
           (if trim (currentOutputTranscriptionRef s) \<noteq> []
            then [OnTranscriptionUpdate
                    \<lparr>role = model, text' = currentOutputTranscriptionRef s,
                     timestamp = dateModel env\<rparr>]
            else [])"
  using assms by (simp add: sendCompletedTurns_def Let_def)

lemma sendCompletedTurns_none:
  "serverContent m = None \<Longrightarrow> sendCompletedTurns env m s = s"
  "serverContent m = Some c \<Longrightarrow> \<not> turnComplete c \<Longrightarrow> sendCompletedTurns env m s = s"
  by (simp_all add: sendCompletedTurns_def)

lemma updates_only:
  "concat (map decodeOf (map OnTranscriptionUpdate cs)) = []"
  "concat (map startOf (map OnTranscriptionUpdate cs)) = []"
  "concat (map stopOf (map OnTranscriptionUpdate cs)) = []"
  by (induction cs) simp_all

lemma sendCompletedTurns_effects:
  "\<exists>cs. effects (sendCompletedTurns env m s) = effects s @ map OnTranscriptionUpdate cs"
proof (cases "serverContent m")
  case None
  then have "effects (sendCompletedTurns env m s) = effects s @ map OnTranscriptionUpdate []"
    by (simp add: sendCompletedTurns_none)
  then show ?thesis by (rule exI)
next
  case (Some c)
  show ?thesis
  proof (cases "turnComplete c")
    case False
    with Some have "effects (sendCompletedTurns env m s) = effects s @ map OnTranscriptionUpdate []"
      by (simp add: sendCompletedTurns_none)
    then show ?thesis by (rule exI)
  next
    case True
    let ?u = "\<lparr>role = user, text' = currentInputTranscriptionRef s, timestamp = dateUser env\<rparr>"
    let ?v = "\<lparr>role = model, text' = currentOutputTranscriptionRef s, timestamp = dateModel env\<rparr>"
    have "effects (sendCompletedTurns env m s) =
            effects s @ map OnTranscriptionUpdate
              ((if trim (currentInputTranscriptionRef s) \<noteq> [] then [?u] else []) @
               (if trim (currentOutputTranscriptionRef s) \<noteq> [] then [?v] else []))"
      unfolding sendCompletedTurns_turn [OF Some True] by simp
    then show ?thesis by (rule exI)
  qed
qed

lemma projections_sendCompletedTurns [simp]:
  "decoded (sendCompletedTurns env m s) = decoded s"
  "started (sendCompletedTurns env m s) = started s"
  "stopped (sendCompletedTurns env m s) = stopped s"
proof -
  obtain cs where e: "effects (sendCompletedTurns env m s) = effects s @ map OnTranscriptionUpdate cs"
    using sendCompletedTurns_effects by blast
  show "decoded (sendCompletedTurns env m s) = decoded s"
    "started (sendCompletedTurns env m s) = started s"
    "stopped (sendCompletedTurns env m s) = stopped s"
    by (simp_all add: decoded_def started_def stopped_def e updates_only)
qed

lemma handleAudioOutput_active:
  "\<exists>new. activeSourcesRef (handleAudioOutput decode env m s) = activeSourcesRef s @ new"
  by (simp add: handleAudioOutput_def Let_def split: option.splits)

lemma handleAudioOutput_stopped [simp]:
  "stopped (handleAudioOutput decode env m s) = stopped s"
  by (simp add: handleAudioOutput_def Let_def stopped_def perform_def split: option.splits)

lemma stops_of_sources:
  "concat (map (stopOf \<circ> (\<lambda>src. SourceStop (node src))) srcs) = map node srcs"
  by (induction srcs) simp_all

lemma handleInterruption_stopped:
  "serverContent m = Some c \<Longrightarrow> interrupted c \<Longrightarrow>
   stopped (handleInterruption m s) = stopped s @ map node (activeSourcesRef s)"
  by (simp add: handleInterruption_def stopped_def perform_def stops_of_sources)

lemma handleAudioOutput_emitted [simp]:
  "emitted (handleAudioOutput decode env m s) = emitted s"
  by (simp add: handleAudioOutput_def Let_def emitted_def perform_def split: option.splits)

lemma updates_of_stops:
  "concat (map (updateOf \<circ> (\<lambda>src. SourceStop (node src))) srcs) = []"
  by (induction srcs) simp_all

lemma handleInterruption_emitted [simp]:
  "emitted (handleInterruption m s) = emitted s"
  by (simp add: handleInterruption_def emitted_def perform_def updates_of_stops
      split: option.splits)

lemma handleTranscriptions_buffers:
  "currentInputTranscriptionRef (handleTranscriptions m s) =
     currentInputTranscriptionRef s @ inputFragment m"
  "currentOutputTranscriptionRef (handleTranscriptions m s) =
     currentOutputTranscriptionRef s @ outputFragment m"
  by (simp_all add: handleTranscriptions_def inputFragment_def outputFragment_def Let_def
      split: option.splits)

lemma onmessage_fragment:
  assumes "\<not> isTurnComplete m" and "\<not> isInterrupted m"
  shows "emitted (onmessage decode env m s) = emitted s"
    and "currentInputTranscriptionRef (onmessage decode env m s) =
           currentInputTranscriptionRef s @ inputFragment m"
    and "currentOutputTranscriptionRef (onmessage decode env m s) =
           currentOutputTranscriptionRef s @ outputFragment m"
proof -
  have a: "sendCompletedTurns env m (handleTranscriptions m s) = handleTranscriptions m s"
    using assms(1) by (simp add: sendCompletedTurns_def isTurnComplete_def split: option.splits)
  have b: "handleInterruption m x = x" for x
    using assms(2) by (simp add: handleInterruption_def isInterrupted_def split: option.splits)
  show "emitted (onmessage decode env m s) = emitted s"
    and "currentInputTranscriptionRef (onmessage decode env m s) =
           currentInputTranscriptionRef s @ inputFragment m"
    and "currentOutputTranscriptionRef (onmessage decode env m s) =
           currentOutputTranscriptionRef s @ outputFragment m"
    by (simp_all add: onmessage_def Let_def a b handleTranscriptions_buffers)
qed

lemma onmessages_fragments:
  assumes "\<forall>(env, m) \<in> set ems. \<not> isTurnComplete m \<and> \<not> isInterrupted m"
  shows "emitted (onmessages decode ems s) = emitted s \<and>
         currentInputTranscriptionRef (onmessages decode ems s) =
           currentInputTranscriptionRef s @ concat (map (inputFragment \<circ> snd) ems) \<and>
         currentOutputTranscriptionRef (onmessages decode ems s) =
           currentOutputTranscriptionRef s @ concat (map (outputFragment \<circ> snd) ems)"
  using assms
proof (induction ems arbitrary: s)
  case Nil
  then show ?case by simp
next
  case (Cons em ems)
  obtain env m where em: "em = (env, m)" by (cases em)
  from Cons.prems em have m: "\<not> isTurnComplete m" "\<not> isInterrupted m"
    and rest: "\<forall>(env, m) \<in> set ems. \<not> isTurnComplete m \<and> \<not> isInterrupted m"
    by auto
  show ?case
    using Cons.IH [OF rest, of "onmessage decode env m s"] onmessage_fragment [OF m, of decode env s]
    by (simp add: em)
qed

lemma onmessage_turnComplete:
  assumes "isTurnComplete m"
  shows "emitted (onmessage decode env m s) =
           emitted s @
           (if trim (currentInputTranscriptionRef s @ inputFragment m) \<noteq> []
            then [\<lparr>role = user, text' = currentInputTranscriptionRef s @ inputFragment m,
                   timestamp = dateUser env\<rparr>]
            else []) @
           (if trim (currentOutputTranscriptionRef s @ outputFragment m) \<noteq> []
            then [\<lparr>role = model, text' = currentOutputTranscriptionRef s @ outputFragment m,
                   timestamp = dateModel env\<rparr>]
            else [])"
proof -
  obtain c where c: "serverContent m = Some c" "turnComplete c"
    using assms by (auto simp: isTurnComplete_def split: option.splits)
  let ?s0 = "handleTranscriptions m s"
  have "emitted (sendCompletedTurns env m ?s0) =
          emitted ?s0 @
           (if trim (currentInputTranscriptionRef ?s0) \<noteq> []
            then [\<lparr>role = user, text' = currentInputTranscriptionRef ?s0,
                   timestamp = dateUser env\<rparr>]
            else []) @
           (if trim (currentOutputTranscriptionRef ?s0) \<noteq> []
            then [\<lparr>role = model, text' = currentOutputTranscriptionRef ?s0,
                   timestamp = dateModel env\<rparr>]
            else [])"
    using c by (simp add: sendCompletedTurns_def Let_def emitted_def perform_def)
  then show ?thesis
    by (simp add: onmessage_def Let_def handleTranscriptions_buffers)
qed

lemma duration_nonneg: "0 \<le> duration b"
  by (simp add: duration_def)

lemma cleanup_cursor [simp]: "nextStartTimeRef (cleanup s) = nextStartTimeRef s"
  by (simp add: cleanup_def Let_def perform_def split: option.splits)

lemma handleAudioOutput_cursor:
  "nextStartTimeRef s \<le> nextStartTimeRef (handleAudioOutput decode env m s)"
proof -
  have "nextStartTimeRef s \<le> max (nextStartTimeRef s) (currentTime env) + duration b" for b
    using duration_nonneg [of b] by (simp add: max_def)
  then show ?thesis
    by (simp add: handleAudioOutput_def Let_def split: option.splits)
qed

lemma handleInterruption_cursor:
  "nextStartTimeRef (handleInterruption m s) = (if isInterrupted m then 0 else nextStartTimeRef s)"
  by (simp add: handleInterruption_def isInterrupted_def split: option.splits)

lemma onmessage_cursor:
  "if appModeRef s \<noteq> TEST_ACTIVE \<and> isInterrupted m
   then nextStartTimeRef (onmessage decode env m s) = 0
   else nextStartTimeRef s \<le> nextStartTimeRef (onmessage decode env m s)"
  using handleAudioOutput_cursor [of "sendCompletedTurns env m (handleTranscriptions m s)" decode env m]
  by (simp add: onmessage_def Let_def handleInterruption_cursor)

lemma starts_of_stops:
  "concat (map (startOf \<circ> (\<lambda>src. SourceStop (node src))) srcs) = []"
  by (induction srcs) simp_all

lemma handleInterruption_started [simp]:
  "started (handleInterruption m s) = started s"
  by (simp add: handleInterruption_def started_def perform_def starts_of_stops
      split: option.splits)

lemma handleInterruption_refs [simp]:
  "fresh (handleInterruption m s) = fresh s"
  "outputAudioContextRef (handleInterruption m s) = outputAudioContextRef s"
  "outputNodeRef (handleInterruption m s) = outputNodeRef s"
  by (simp_all add: handleInterruption_def perform_def split: option.splits)

lemma handleAudioOutput_schedules:
  assumes "outputAudioContextRef s \<noteq> None" and "outputNodeRef s \<noteq> None"
    and "base64Audio m = Some d" and "d \<noteq> []" and "decode d = Some b"
  shows "started (handleAudioOutput decode env m s) =
           started s @ [(fresh s, max (nextStartTimeRef s) (currentTime env))]"
    and "nextStartTimeRef (handleAudioOutput decode env m s) =
           max (nextStartTimeRef s) (currentTime env) + duration b"
    and "fresh (handleAudioOutput decode env m s) = fresh s + 1"
    and "outputAudioContextRef (handleAudioOutput decode env m s) = outputAudioContextRef s"
    and "outputNodeRef (handleAudioOutput decode env m s) = outputNodeRef s"
  using assms
  by (simp_all add: handleAudioOutput_def Let_def perform_def started_def)

lemma onmessage_schedules:
  assumes "appModeRef s \<noteq> TEST_ACTIVE"
    and "outputAudioContextRef s \<noteq> None" and "outputNodeRef s \<noteq> None"
    and "base64Audio m = Some d" and "d \<noteq> []" and "decode d = Some b"
  shows "started (onmessage decode env m s) =
           started s @ [(fresh s, max (nextStartTimeRef s) (currentTime env))]"
    and "\<not> isInterrupted m \<Longrightarrow>
         nextStartTimeRef (onmessage decode env m s) =
           max (nextStartTimeRef s) (currentTime env) + duration b"
    and "fresh (onmessage decode env m s) = fresh s + 1"
    and "appModeRef (onmessage decode env m s) = appModeRef s"
    and "outputAudioContextRef (onmessage decode env m s) = outputAudioContextRef s"
    and "outputNodeRef (onmessage decode env m s) = outputNodeRef s"
proof -
  let ?s1 = "sendCompletedTurns env m (handleTranscriptions m s)"
  have eq: "onmessage decode env m s = handleInterruption m (handleAudioOutput decode env m ?s1)"
    using assms(1) by (simp add: onmessage_def Let_def)
  have pre: "outputAudioContextRef ?s1 \<noteq> None" "outputNodeRef ?s1 \<noteq> None"
    using assms(2,3) by simp_all
  note au = handleAudioOutput_schedules [where decode = decode and env = env, OF pre assms(4-6)]
  show "started (onmessage decode env m s) =
           started s @ [(fresh s, max (nextStartTimeRef s) (currentTime env))]"
    unfolding eq by (simp add: au(1))
  show "\<not> isInterrupted m \<Longrightarrow> nextStartTimeRef (onmessage decode env m s) =
           max (nextStartTimeRef s) (currentTime env) + duration b"
    unfolding eq by (simp add: handleInterruption_cursor au(2))
  show "fresh (onmessage decode env m s) = fresh s + 1"
    unfolding eq by (simp add: au(3))
  show "appModeRef (onmessage decode env m s) = appModeRef s"
    unfolding eq by simp
  show "outputAudioContextRef (onmessage decode env m s) = outputAudioContextRef s"
    unfolding eq by (simp add: au(4))
  show "outputNodeRef (onmessage decode env m s) = outputNodeRef s"
    unfolding eq by (simp add: au(5))
qed

lemma onmessage_quiet:
  assumes "base64Audio m = None" and "\<not> isInterrupted m"
  shows "started (onmessage decode env m s) = started s"
    and "nextStartTimeRef (onmessage decode env m s) = nextStartTimeRef s"
    and "fresh (onmessage decode env m s) = fresh s"
    and "appModeRef (onmessage decode env m s) = appModeRef s"
    and "outputAudioContextRef (onmessage decode env m s) = outputAudioContextRef s"
    and "outputNodeRef (onmessage decode env m s) = outputNodeRef s"
proof -
  have a: "handleAudioOutput decode env m x = x" for x
    using assms(1) by (simp add: handleAudioOutput_def)
  have b: "handleInterruption m x = x" for x
    using assms(2) by (simp add: handleInterruption_def isInterrupted_def split: option.splits)
  show "started (onmessage decode env m s) = started s"
    and "nextStartTimeRef (onmessage decode env m s) = nextStartTimeRef s"
    and "fresh (onmessage decode env m s) = fresh s"
    and "appModeRef (onmessage decode env m s) = appModeRef s"
    and "outputAudioContextRef (onmessage decode env m s) = outputAudioContextRef s"
    and "outputNodeRef (onmessage decode env m s) = outputNodeRef s"
    by (simp_all add: onmessage_def Let_def a b)
qed

lemma onmessages_quiet:
  assumes "\<forall>(env, m) \<in> set ems. base64Audio m = None \<and> \<not> isInterrupted m"
  shows "started (onmessages decode ems s) = started s \<and>
         nextStartTimeRef (onmessages decode ems s) = nextStartTimeRef s \<and>
         fresh (onmessages decode ems s) = fresh s \<and>
         appModeRef (onmessages decode ems s) = appModeRef s \<and>
         outputAudioContextRef (onmessages decode ems s) = outputAudioContextRef s \<and>
         outputNodeRef (onmessages decode ems s) = outputNodeRef s"
  using assms
proof (induction ems arbitrary: s)
  case Nil
  then show ?case by simp
next
  case (Cons em ems)
  obtain env m where em: "em = (env, m)" by (cases em)
  from Cons.prems em have m: "base64Audio m = None" "\<not> isInterrupted m"
    and rest: "\<forall>(env, m) \<in> set ems. base64Audio m = None \<and> \<not> isInterrupted m"
    by auto
  show ?case
    using Cons.IH [OF rest, of "onmessage decode env m s"] onmessage_quiet [OF m, of decode env s]
    by (simp add: em)
qed

section \<open>The example states, evaluated\<close>

lemma connectedHook_eval:
  "connectedHook =
     \<lparr>connectionState = Connected, error = None, isMuted = False, volumeLevel = 0,
      appModeRef = CONVERSATION,
      inputAudioContextRef = Some 0, outputAudioContextRef = Some 1,
      inputNodeRef = Some 2, outputNodeRef = Some 3,
      scriptProcessorRef =
        Some \<lparr>processor = 6, handler = \<lparr>isMuted\<^sub>c = False, sessionPromise\<^sub>c = 4\<rparr>\<rparr>,
      streamRef = Some 100, sourceRef = Some 5,
      nextStartTimeRef = 0, activeSourcesRef = [],
      sessionPromiseRef = Some 4,
      currentInputTranscriptionRef = [], currentOutputTranscriptionRef = [],
      effects =
        [NewAudioContext 0 16000, NewAudioContext 1 24000, GetUserMedia,
         UserMediaStream 100, LiveConnect 4 DEFAULT_SYSTEM_INSTRUCTION],
      fresh = 7\<rparr>"
  by (simp add: connectedHook_def settledHook_def connectingHook_def connect_def
      connect_resume_def onopen_def initial_def perform_def js_def Let_def)

lemma playingHook_eval:
  "playingHook =
     \<lparr>connectionState = Connected, error = None, isMuted = False, volumeLevel = 0,
      appModeRef = CONVERSATION,
      inputAudioContextRef = Some 0, outputAudioContextRef = Some 1,
      inputNodeRef = Some 2, outputNodeRef = Some 3,
      scriptProcessorRef =
        Some \<lparr>processor = 6, handler = \<lparr>isMuted\<^sub>c = False, sessionPromise\<^sub>c = 4\<rparr>\<rparr>,
      streamRef = Some 100, sourceRef = Some 5,
      nextStartTimeRef = 2,
      activeSourcesRef = [\<lparr>node = 7, buffer = \<lparr>frames = 24000, sampleRate = 24000\<rparr>\<rparr>],
      sessionPromiseRef = Some 4,
      currentInputTranscriptionRef = [], currentOutputTranscriptionRef = [],
      effects =
        [NewAudioContext 0 16000, NewAudioContext 1 24000, GetUserMedia,
         UserMediaStream 100, LiveConnect 4 DEFAULT_SYSTEM_INSTRUCTION,
         DecodeAudioData (js ''AAAA''), SourceStart 7 1],
      fresh = 8\<rparr>"
  by (simp add: playingHook_def connectedHook_eval perform_def onmessage_def
      handleTranscriptions_def sendCompletedTurns_def handleAudioOutput_def
      handleInterruption_def base64Audio_def audioChunk_def noContent_def oneSecond_def
      atTime_def duration_def js_def Let_def)

lemma connectTwice_eval:
  "effects connectTwice =
     [NewAudioContext 0 16000, NewAudioContext 1 24000, GetUserMedia,
      NewAudioContext 4 16000, NewAudioContext 5 24000, GetUserMedia,
      UserMediaStream 100, LiveConnect 8 DEFAULT_SYSTEM_INSTRUCTION,
      UserMediaStream 101, LiveConnect 9 DEFAULT_SYSTEM_INSTRUCTION]"
  by (simp add: connectTwice_def connect_def connect_resume_def initial_def perform_def
      js_def Let_def)

lemma reconnect_eval:
  "effects reconnect =
      [NewAudioContext 0 16000, NewAudioContext 1 24000, GetUserMedia,
       UserMediaStream 100, LiveConnect 4 DEFAULT_SYSTEM_INSTRUCTION,
       TrackStop 100, NodeDisconnect 5, NodeDisconnect 6,
       CloseAudioContext 0, CloseAudioContext 1, SessionClose 4,
       NewAudioContext 7 16000, NewAudioContext 8 24000, GetUserMedia,
       UserMediaStream 101, LiveConnect 11 DEFAULT_SYSTEM_INSTRUCTION]"
  by (simp add: reconnect_def connectedHook_eval connect_def connect_resume_def cleanup_def
      perform_def js_def Let_def)

section \<open>Mode gate\<close>

text \<open>
  C1. A message handled while the mode ref says test-active, whatever it carries, an
  audio chunk included: no call of the decoder and no \<^verbatim>\<open>source.start\<close> is added, and the
  active set and the cursor stay as they were.
\<close>

theorem test_active_discards_chunk:
  assumes "appModeRef s = TEST_ACTIVE"
  shows "decoded (onmessage decode env m s) = decoded s \<and>
         started (onmessage decode env m s) = started s \<and>
         activeSourcesRef (onmessage decode env m s) = activeSourcesRef s \<and>
         nextStartTimeRef (onmessage decode env m s) = nextStartTimeRef s"
  using assms by (simp add: onmessage_def Let_def)

theorem test_active_discards_chunk_witness:
  "appModeRef (syncAppMode TEST_ACTIVE playingHook) = TEST_ACTIVE \<and>
   base64Audio (audioChunk (js ''BBBB'')) = Some (js ''BBBB'') \<and>
   decoded (onmessage oneSecond (atTime 1) (audioChunk (js ''BBBB''))
              (syncAppMode TEST_ACTIVE playingHook)) = [js ''AAAA''] \<and>
   started (onmessage oneSecond (atTime 1) (audioChunk (js ''BBBB''))
              (syncAppMode TEST_ACTIVE playingHook)) = [(7, 1)] \<and>
   activeSourcesRef (onmessage oneSecond (atTime 1) (audioChunk (js ''BBBB''))
              (syncAppMode TEST_ACTIVE playingHook))
     = [\<lparr>node = 7, buffer = \<lparr>frames = 24000, sampleRate = 24000\<rparr>\<rparr>] \<and>
   nextStartTimeRef (onmessage oneSecond (atTime 1) (audioChunk (js ''BBBB''))
              (syncAppMode TEST_ACTIVE playingHook)) = 2"
  using test_active_discards_chunk [of "syncAppMode TEST_ACTIVE playingHook" oneSecond
      "atTime 1" "audioChunk (js ''BBBB'')"]
  by (simp add: playingHook_eval syncAppMode_def decoded_def started_def base64Audio_def
      audioChunk_def noContent_def)

text \<open>
  C10. In test mode a message with the interruption signal gets the transcript part of
  the handler and nothing else: no source is stopped, the active set and the cursor are
  unchanged, and the model buffer is what the transcript part left (the fragment
  appended, or empty after a turn-complete), not cleared by the interruption.
\<close>

theorem test_active_skips_interruption:
  assumes "appModeRef s = TEST_ACTIVE" and "serverContent m = Some c" and "interrupted c"
  shows "onmessage decode env m s = sendCompletedTurns env m (handleTranscriptions m s) \<and>
         stopped (onmessage decode env m s) = stopped s \<and>
         activeSourcesRef (onmessage decode env m s) = activeSourcesRef s \<and>
         nextStartTimeRef (onmessage decode env m s) = nextStartTimeRef s \<and>
         currentOutputTranscriptionRef (onmessage decode env m s) =
           (if turnComplete c then []
            else currentOutputTranscriptionRef s @ outputFragment m)"
proof -
  have eq: "onmessage decode env m s = sendCompletedTurns env m (handleTranscriptions m s)"
    using assms(1) by (simp add: onmessage_def Let_def)
  have out: "currentOutputTranscriptionRef (sendCompletedTurns env m (handleTranscriptions m s)) =
           (if turnComplete c then []
            else currentOutputTranscriptionRef s @ outputFragment m)"
    using assms(2)
    by (simp add: sendCompletedTurns_def handleTranscriptions_def outputFragment_def Let_def
        split: option.splits)
  show ?thesis
    unfolding eq using out by simp
qed

theorem test_active_skips_interruption_witness:
  "appModeRef (syncAppMode TEST_ACTIVE playingHook) = TEST_ACTIVE \<and>
   serverContent interruptedEvent = Some (noContent\<lparr>interrupted := True\<rparr>) \<and>
   interrupted (noContent\<lparr>interrupted := True\<rparr>) \<and>
   stopped (onmessage oneSecond (atTime 1) interruptedEvent
              (syncAppMode TEST_ACTIVE playingHook)) = [] \<and>
   activeSourcesRef (onmessage oneSecond (atTime 1) interruptedEvent
              (syncAppMode TEST_ACTIVE playingHook))
     = [\<lparr>node = 7, buffer = \<lparr>frames = 24000, sampleRate = 24000\<rparr>\<rparr>] \<and>
   nextStartTimeRef (onmessage oneSecond (atTime 1) interruptedEvent
              (syncAppMode TEST_ACTIVE playingHook)) = 2"
  using test_active_skips_interruption [of "syncAppMode TEST_ACTIVE playingHook"
      interruptedEvent "noContent\<lparr>interrupted := True\<rparr>" oneSecond "atTime 1"]
  by (simp add: playingHook_eval syncAppMode_def stopped_def interruptedEvent_def noContent_def)

section \<open>Transcript aggregation\<close>

text \<open>
  C5. After a message with the turn-complete signal has been handled, both accumulator
  buffers are empty, whatever they held, whatever was emitted, in every mode and
  whatever else the message carries.
\<close>

theorem turnComplete_clears_buffers:
  assumes "serverContent m = Some c" and "turnComplete c"
  shows "currentInputTranscriptionRef (onmessage decode env m s) = [] \<and>
         currentOutputTranscriptionRef (onmessage decode env m s) = []"
proof -
  let ?s1 = "sendCompletedTurns env m (handleTranscriptions m s)"
  have c: "currentInputTranscriptionRef ?s1 = []" "currentOutputTranscriptionRef ?s1 = []"
    using assms by (simp_all add: sendCompletedTurns_def Let_def)
  show ?thesis
    by (simp add: onmessage_def Let_def c handleInterruption_output)
qed

theorem turnComplete_clears_buffers_witness:
  "currentInputTranscriptionRef
     (onmessage oneSecond (atTime 2) turnCompleteEvent
        (onmessage oneSecond (atTime 1) (inputTranscriptionFragment (js ''Hi'')) connectedHook))
     = [] \<and>
   currentOutputTranscriptionRef
     (onmessage oneSecond (atTime 2) turnCompleteEvent
        (onmessage oneSecond (atTime 1) (inputTranscriptionFragment (js ''Hi'')) connectedHook))
     = []"
  using turnComplete_clears_buffers [of turnCompleteEvent "noContent\<lparr>turnComplete := True\<rparr>"
      oneSecond "atTime 2"
      "onmessage oneSecond (atTime 1) (inputTranscriptionFragment (js ''Hi'')) connectedHook"]
  by (simp add: turnCompleteEvent_def noContent_def)

text \<open>
  C4. A turn: messages that carry fragments (none with the turn-complete or the
  interruption signal), then a message with the turn-complete signal. What the callback
  receives in the whole run is, for each role, at most one message: the text is the
  buffer at the start followed by the fragments of the role in arrival order, as they
  came; it is sent when its trimmed text is not empty; the time stamp is the date read
  in the turn-complete branch; the user's message comes first.
\<close>

theorem turn_emits_concatenation:
  assumes "\<forall>(env, m) \<in> set ems. \<not> isTurnComplete m \<and> \<not> isInterrupted m"
    and "isTurnComplete mT"
  shows "emitted (onmessage decode envT mT (onmessages decode ems s)) =
           emitted s @
           (if trim (currentInputTranscriptionRef s @
                       concat (map (inputFragment \<circ> snd) ems) @ inputFragment mT) \<noteq> []
            then [\<lparr>role = user,
                   text' = currentInputTranscriptionRef s @
                             concat (map (inputFragment \<circ> snd) ems) @ inputFragment mT,
                   timestamp = dateUser envT\<rparr>]
            else []) @
           (if trim (currentOutputTranscriptionRef s @
                       concat (map (outputFragment \<circ> snd) ems) @ outputFragment mT) \<noteq> []
            then [\<lparr>role = model,
                   text' = currentOutputTranscriptionRef s @
                             concat (map (outputFragment \<circ> snd) ems) @ outputFragment mT,
                   timestamp = dateModel envT\<rparr>]
            else [])"
  using onmessages_fragments [OF assms(1), of decode s]
    onmessage_turnComplete [OF assms(2), of decode envT "onmessages decode ems s"]
  by simp

theorem turn_emits_concatenation_witness:
  "isTurnComplete turnCompleteEvent \<and>
   \<not> isTurnComplete (inputTranscriptionFragment (js ''Hel'')) \<and>
   \<not> isInterrupted (inputTranscriptionFragment (js ''lo there'')) \<and>
   emitted (onmessage oneSecond \<lparr>currentTime = 3, dateUser = 1700000000000, dateModel = 1700000000001\<rparr>
              turnCompleteEvent
              (onmessages oneSecond
                 [(atTime 1, inputTranscriptionFragment (js ''Hel'')),
                  (atTime 2, inputTranscriptionFragment (js ''lo there''))]
                 connectedHook))
     = [\<lparr>role = user, text' = js ''Hello there'', timestamp = 1700000000000\<rparr>]"
  using turn_emits_concatenation [of
      "[(atTime 1, inputTranscriptionFragment (js ''Hel'')),
        (atTime 2, inputTranscriptionFragment (js ''lo there''))]"
      turnCompleteEvent oneSecond
      "\<lparr>currentTime = 3, dateUser = 1700000000000, dateModel = 1700000000001\<rparr>" connectedHook]
  by (simp add: isTurnComplete_def isInterrupted_def inputFragment_def outputFragment_def
      inputTranscriptionFragment_def turnCompleteEvent_def noContent_def connectedHook_eval
      emitted_def trim_def isWhiteSpace_def js_def)

section \<open>Interruption\<close>

text \<open>
  C3, as the code has it. A message with the interruption signal handled outside test
  mode: afterwards the active set is empty, the cursor is zero, the model buffer is
  empty, and every source that was in the active set (and the one this very message
  scheduled, if any) has been stopped.
\<close>

theorem interruption_resets_playback:
  assumes "appModeRef s \<noteq> TEST_ACTIVE" and "serverContent m = Some c" and "interrupted c"
  shows "activeSourcesRef (onmessage decode env m s) = [] \<and>
         nextStartTimeRef (onmessage decode env m s) = 0 \<and>
         currentOutputTranscriptionRef (onmessage decode env m s) = [] \<and>
         (\<exists>new. stopped (onmessage decode env m s) =
                   stopped s @ map node (activeSourcesRef s @ new))"
proof -
  let ?s1 = "sendCompletedTurns env m (handleTranscriptions m s)"
  let ?s2 = "handleAudioOutput decode env m ?s1"
  have eq: "onmessage decode env m s = handleInterruption m ?s2"
    using assms(1) by (simp add: onmessage_def Let_def)
  obtain new where new: "activeSourcesRef ?s2 = activeSourcesRef s @ new"
    using handleAudioOutput_active [of decode env m ?s1] by auto
  have "stopped (handleInterruption m ?s2) = stopped ?s2 @ map node (activeSourcesRef ?s2)"
    using assms(2,3) by (rule handleInterruption_stopped)
  then have st: "stopped (handleInterruption m ?s2) = stopped s @ map node (activeSourcesRef ?s2)"
    by simp
  show ?thesis
    unfolding eq using assms(2,3) st new
    by (auto simp: handleInterruption_def)
qed

theorem interruption_resets_playback_witness:
  "appModeRef playingHook \<noteq> TEST_ACTIVE \<and>
   serverContent interruptedEvent = Some (noContent\<lparr>interrupted := True\<rparr>) \<and>
   interrupted (noContent\<lparr>interrupted := True\<rparr>) \<and>
   activeSourcesRef (onmessage oneSecond (atTime 1) interruptedEvent playingHook) = [] \<and>
   nextStartTimeRef (onmessage oneSecond (atTime 1) interruptedEvent playingHook) = 0 \<and>
   currentOutputTranscriptionRef (onmessage oneSecond (atTime 1) interruptedEvent playingHook) = []"
  using interruption_resets_playback [of playingHook interruptedEvent
      "noContent\<lparr>interrupted := True\<rparr>" oneSecond "atTime 1"]
  by (simp add: playingHook_eval interruptedEvent_def noContent_def)

text \<open>
  C3 as stated fails twice. In test mode the handler returns before the interruption
  branch: the scheduled source stays in the active set, is not stopped, and the cursor
  stays at 2. In conversation mode, the handler knows no turns: a chunk that comes after
  the interruption is scheduled like any other, here at 3/2 as source 8.
\<close>

theorem interruption_counterexample:
  "appModeRef (syncAppMode TEST_ACTIVE playingHook) = TEST_ACTIVE \<and>
   isInterrupted interruptedEvent \<and>
   activeSourcesRef (onmessage oneSecond (atTime 1) interruptedEvent
                       (syncAppMode TEST_ACTIVE playingHook))
     = [\<lparr>node = 7, buffer = \<lparr>frames = 24000, sampleRate = 24000\<rparr>\<rparr>] \<and>
   nextStartTimeRef (onmessage oneSecond (atTime 1) interruptedEvent
                       (syncAppMode TEST_ACTIVE playingHook)) = 2 \<and>
   stopped (onmessage oneSecond (atTime 1) interruptedEvent
              (syncAppMode TEST_ACTIVE playingHook)) = [] \<and>
   appModeRef playingHook = CONVERSATION \<and>
   started (onmessage oneSecond (atTime (3 / 2)) interruptedEvent playingHook) = [(7, 1)] \<and>
   started (onmessage oneSecond (atTime (3 / 2)) (audioChunk (js ''BBBB''))
              (onmessage oneSecond (atTime (3 / 2)) interruptedEvent playingHook))
     = [(7, 1), (8, 3 / 2)]"
  by (simp add: playingHook_eval syncAppMode_def onmessage_def handleTranscriptions_def
      sendCompletedTurns_def handleAudioOutput_def handleInterruption_def base64Audio_def
      interruptedEvent_def audioChunk_def noContent_def isInterrupted_def oneSecond_def
      atTime_def perform_def stopped_def started_def js_def Let_def)

section \<open>Playback cursor\<close>

text \<open>
  C8. Two chunks scheduled one after the other outside test mode, with only messages
  that carry neither audio nor an interruption in between: the first starts at the
  maximum of the cursor and the clock, and the cursor moves to that start plus the
  duration of the chunk; the second starts at the maximum of that cursor and the clock,
  which is not before the end of the first, and exactly at the end of the first when the
  second is handled before the first has finished.
\<close>

theorem chunks_play_back_to_back:
  assumes "appModeRef s \<noteq> TEST_ACTIVE"
    and "outputAudioContextRef s \<noteq> None" and "outputNodeRef s \<noteq> None"
    and "base64Audio mA = Some dA" and "dA \<noteq> []" and "decode dA = Some bufA"
    and "\<not> isInterrupted mA"
    and "\<forall>(env, m) \<in> set ems. base64Audio m = None \<and> \<not> isInterrupted m"
    and "base64Audio mB = Some dB" and "dB \<noteq> []" and "decode dB = Some bufB"
  shows "let startA = max (nextStartTimeRef s) (currentTime envA);
             sA = onmessage decode envA mA s;
             startB = max (nextStartTimeRef sA) (currentTime envB);
             sB = onmessage decode envB mB (onmessages decode ems sA)
         in started sA = started s @ [(fresh s, startA)] \<and>
            nextStartTimeRef sA = startA + duration bufA \<and>
            started sB = started sA @ [(fresh sA, startB)] \<and>
            startA + duration bufA \<le> startB \<and>
            (currentTime envB \<le> startA + duration bufA \<longrightarrow>
               startB = startA + duration bufA)"
proof -
  let ?sA = "onmessage decode envA mA s"
  let ?sQ = "onmessages decode ems ?sA"
  note A = onmessage_schedules [where decode = decode and env = envA, OF assms(1-6)]
  note Q = onmessages_quiet [OF assms(8), of decode ?sA]
  have modeQ: "appModeRef ?sQ \<noteq> TEST_ACTIVE"
    and ctxQ: "outputAudioContextRef ?sQ \<noteq> None" and nodeQ: "outputNodeRef ?sQ \<noteq> None"
    using Q A(4-6) assms(1-3) by simp_all
  note B = onmessage_schedules [where decode = decode and env = envB, OF modeQ ctxQ nodeQ assms(9-11)]
  have startsB: "started (onmessage decode envB mB ?sQ) =
      started ?sA @ [(fresh ?sA, max (nextStartTimeRef ?sA) (currentTime envB))]"
    using B(1) Q by simp
  show ?thesis
    using A(1) A(2) [OF assms(7)] startsB
    by (simp add: Let_def max_def)
qed

theorem chunks_play_back_to_back_witness:
  "started playingHook = [(7, 1)] \<and>
   nextStartTimeRef playingHook = 2 \<and>
   started (onmessage oneSecond (atTime (3 / 2)) (audioChunk (js ''BBBB''))
              (onmessages oneSecond [(atTime (5 / 4), outputTranscriptionFragment (js ''Hi''))]
                 playingHook))
     = [(7, 1), (8, 2)]"
proof -
  have pre: "appModeRef connectedHook \<noteq> TEST_ACTIVE"
    "outputAudioContextRef connectedHook \<noteq> None" "outputNodeRef connectedHook \<noteq> None"
    by (simp_all add: connectedHook_eval)
  have A: "base64Audio (audioChunk (js ''AAAA'')) = Some (js ''AAAA'')" "js ''AAAA'' \<noteq> []"
    "oneSecond (js ''AAAA'') = Some \<lparr>frames = 24000, sampleRate = 24000\<rparr>"
    "\<not> isInterrupted (audioChunk (js ''AAAA''))"
    by (simp_all add: base64Audio_def audioChunk_def noContent_def js_def oneSecond_def
        isInterrupted_def)
  have B: "base64Audio (audioChunk (js ''BBBB'')) = Some (js ''BBBB'')" "js ''BBBB'' \<noteq> []"
    "oneSecond (js ''BBBB'') = Some \<lparr>frames = 24000, sampleRate = 24000\<rparr>"
    by (simp_all add: base64Audio_def audioChunk_def noContent_def js_def oneSecond_def)
  have Q: "\<forall>(env, m) \<in> set [(atTime (5 / 4), outputTranscriptionFragment (js ''Hi''))].
             base64Audio m = None \<and> \<not> isInterrupted m"
    by (simp add: base64Audio_def outputTranscriptionFragment_def noContent_def isInterrupted_def)
  have s0: "started connectedHook = []" "nextStartTimeRef connectedHook = 0"
    "fresh connectedHook = 7" "fresh playingHook = 8"
    by (simp_all add: connectedHook_eval playingHook_eval started_def)
  show ?thesis
    using chunks_play_back_to_back [where decode = oneSecond and envA = "atTime 1"
        and envB = "atTime (3 / 2)", OF pre A Q B]
    unfolding Let_def playingHook_def [symmetric] s0
    by (simp add: atTime_def duration_def)
qed

text \<open>
  C9. Under every event of the hook the cursor does not decrease, except where the
  handler runs one of the two resets, after which it is zero.
\<close>

theorem cursor_never_decreases:
  "if resetsCursor ev s
   then nextStartTimeRef (step decode ev s) = 0
   else nextStartTimeRef s \<le> nextStartTimeRef (step decode ev s)"
proof (cases ev)
  case (Connect API_KEY override)
  then show ?thesis
    by (simp add: resetsCursor_def connect_def Let_def perform_def)
next
  case (ConnectResume p outcome)
  then show ?thesis
    by (simp add: resetsCursor_def connect_resume_def Let_def perform_def split: sum.splits)
next
  case (OnOpen suspended cl)
  then show ?thesis
    by (simp add: resetsCursor_def onopen_def Let_def perform_def split: option.splits)
next
  case (OnAudioProcess cl inputData)
  then show ?thesis
    by (simp add: resetsCursor_def onaudioprocess_def perform_def)
next
  case (OnMessage env m)
  then show ?thesis
    using onmessage_cursor [of s m decode env] by (simp add: resetsCursor_def)
qed (simp_all add: resetsCursor_def disconnect_def toggleMute_def syncAppMode_def onclose_def
      onerror_def ended_def)

theorem cursor_never_decreases_witness:
  "\<not> resetsCursor (OnMessage (atTime 3) (audioChunk (js ''BBBB''))) playingHook \<and>
   nextStartTimeRef playingHook = 2 \<and>
   nextStartTimeRef (step oneSecond (OnMessage (atTime 3) (audioChunk (js ''BBBB''))) playingHook) = 4 \<and>
   resetsCursor (OnMessage (atTime 3) interruptedEvent) playingHook \<and>
   nextStartTimeRef (step oneSecond (OnMessage (atTime 3) interruptedEvent) playingHook) = 0"
proof -
  have a: "\<not> resetsCursor (OnMessage (atTime 3) (audioChunk (js ''BBBB''))) playingHook"
    and b: "resetsCursor (OnMessage (atTime 3) interruptedEvent) playingHook"
    by (simp_all add: resetsCursor_def isInterrupted_def audioChunk_def interruptedEvent_def
        noContent_def playingHook_eval)
  have c: "nextStartTimeRef (step oneSecond (OnMessage (atTime 3) (audioChunk (js ''BBBB''))) playingHook) = 4"
    by (simp add: playingHook_eval onmessage_def handleTranscriptions_def
      sendCompletedTurns_def handleAudioOutput_def handleInterruption_def base64Audio_def
      audioChunk_def noContent_def oneSecond_def atTime_def perform_def duration_def js_def Let_def)
  show ?thesis
    using cursor_never_decreases [of "OnMessage (atTime 3) (audioChunk (js ''BBBB''))" playingHook oneSecond]
      cursor_never_decreases [of "OnMessage (atTime 3) interruptedEvent" playingHook oneSecond]
      a b c
    by (simp add: playingHook_eval)
qed

section \<open>Capture\<close>

text \<open>
  C2. The capture handler tests the \<^verbatim>\<open>isMuted\<close> of its closure, not the flag of the hook.
  In the session connected while not muted and muted afterwards with \<^verbatim>\<open>toggleMute\<close>, the
  hook is muted, the installed handler still holds \<open>False\<close>, and the next capture block is
  handed to session 4.
\<close>

theorem muted_session_still_sends:
  "isMuted (toggleMute connectedHook) \<and>
   scriptProcessorRef (toggleMute connectedHook) =
     Some \<lparr>processor = 6, handler = \<lparr>isMuted\<^sub>c = False, sessionPromise\<^sub>c = 4\<rparr>\<rparr> \<and>
   sent (toggleMute connectedHook) = [] \<and>
   sent (onaudioprocess \<lparr>isMuted\<^sub>c = False, sessionPromise\<^sub>c = 4\<rparr> [1 / 2, - 1 / 2]
           (toggleMute connectedHook)) = [(4, [1 / 2, - 1 / 2])]"
  by (simp add: connectedHook_eval toggleMute_def onaudioprocess_def perform_def sent_def)

lemma onaudioprocess_closure_muted:
  "isMuted\<^sub>c cl \<Longrightarrow> onaudioprocess cl inputData s = s"
  by (simp add: onaudioprocess_def)

section \<open>Single session and missing credential\<close>

text \<open>
  C6. Two calls of \<^verbatim>\<open>connect\<close> in a row: at the second call \<^verbatim>\<open>sessionPromiseRef\<close> is still
  empty, so nothing is torn down. Once both microphone requests are granted, two
  streams, two sessions and four audio contexts are open, none released.
\<close>

theorem connect_twice_leaks:
  "openStreams connectTwice = [100, 101] \<and>
   openSessions connectTwice = [8, 9] \<and>
   openContexts connectTwice = [0, 1, 4, 5] \<and>
   stopped connectTwice = []"
  by (simp add: openStreams_def openSessions_def openContexts_def stopped_def connectTwice_eval)

text \<open>
  When the second call comes after the first has settled, the first session is torn
  down and one stream and one session remain.
\<close>

lemma reconnect_releases:
  "openStreams reconnect = [101] \<and> openSessions reconnect = [11] \<and>
   openContexts reconnect = [7, 8]"
  by (simp add: openStreams_def openSessions_def openContexts_def reconnect_eval)

lemma connect_missing_key:
  "API_KEY = None \<or> API_KEY = Some [] \<Longrightarrow>
   connect API_KEY override s = (None, s\<lparr>error := Some (js ''API Key is missing.'')\<rparr>)"
  by (simp add: connect_def)

text \<open>
  C7. A call of \<^verbatim>\<open>connect\<close> without a credential, from the initial state: the error text
  is set and nothing is acquired, but the connection state stays \<open>Disconnected\<close>.
\<close>

theorem connect_without_key_keeps_state:
  "fst (connect None None (initial CONVERSATION)) = None \<and>
   connectionState (snd (connect None None (initial CONVERSATION))) = Disconnected \<and>
   error (snd (connect None None (initial CONVERSATION))) = Some (js ''API Key is missing.'') \<and>
   effects (snd (connect None None (initial CONVERSATION))) = []"
  by (simp add: connect_missing_key initial_def)

end
